theory Spec2Isabelle
  imports Complex_Main
begin

section \<open>Python values used by the program\<close>

text \<open>
  A Python \<open>str\<close> is a sequence of Unicode code points, so it is modelled as a list of
  natural numbers. \<open>py\<close> turns an ASCII literal of the source into that form.
\<close>

type_synonym pystr = "nat list"

definition py :: "string \<Rightarrow> pystr" where
  "py s = map of_char s"

text \<open>
  The exceptions the program can meet: \<open>xml.etree.ElementTree.ParseError\<close> (a subclass of
  \<open>SyntaxError\<close>), \<open>ValueError\<close> with its message, and \<open>KeyError\<close> with the missing key.
\<close>

datatype exn = ParseError pystr | ValueError pystr | KeyError pystr

text \<open>The values a field of the parsed dictionary can hold: \<open>None\<close>, a \<open>str\<close> or an \<open>int\<close>.\<close>

datatype pyval = NoneV | StrV pystr | IntV int

subsection \<open>\<open>str.isdigit\<close>, \<open>int\<close> and \<open>str\<close> of an integer\<close>

text \<open>
  The code points with a decimal value (Unicode general category Nd), as maximal runs
  \<open>(first, last)\<close>; within a run the value of a code point \<open>c\<close> is \<open>(c - first) mod 10\<close>
  (Unicode 14.0, the data of CPython 3.11).
\<close>

definition decimal_ranges :: "(nat \<times> nat) list" where
  "decimal_ranges =
    [(48, 57), (1632, 1641), (1776, 1785), (1984, 1993), (2406, 2415), (2534, 2543),
     (2662, 2671), (2790, 2799), (2918, 2927), (3046, 3055), (3174, 3183), (3302, 3311),
     (3430, 3439), (3558, 3567), (3664, 3673), (3792, 3801), (3872, 3881), (4160, 4169),
     (4240, 4249), (6112, 6121), (6160, 6169), (6470, 6479), (6608, 6617), (6784, 6793),
     (6800, 6809), (6992, 7001), (7088, 7097), (7232, 7241), (7248, 7257), (42528, 42537),
     (43216, 43225), (43264, 43273), (43472, 43481), (43504, 43513), (43600, 43609),
     (44016, 44025), (65296, 65305), (66720, 66729), (68912, 68921), (69734, 69743),
     (69872, 69881), (69942, 69951), (70096, 70105), (70384, 70393), (70736, 70745),
     (70864, 70873), (71248, 71257), (71360, 71369), (71472, 71481), (71904, 71913),
     (72016, 72025), (72784, 72793), (73040, 73049), (73120, 73129), (92768, 92777),
     (92864, 92873), (93008, 93017), (120782, 120831), (123200, 123209), (123632, 123641),
     (125264, 125273), (130032, 130041)]"

text \<open>
  The code points that are digits without being decimal (Numeric\_Type=Digit): superscripts
  and subscripts, circled and parenthesised digits, Ethiopic and Kharoshthi digits and
  the like. \<open>str.isdigit\<close> accepts them, \<open>int\<close> does not.
\<close>

definition other_digit_ranges :: "(nat \<times> nat) list" where
  "other_digit_ranges =
    [(178, 179), (185, 185), (4969, 4977), (6618, 6618), (8304, 8304), (8308, 8313),
     (8320, 8329), (9312, 9320), (9332, 9340), (9352, 9360), (9450, 9450), (9461, 9469),
     (9471, 9471), (10102, 10110), (10112, 10120), (10122, 10130), (68160, 68163),
     (69216, 69224), (69714, 69722), (127232, 127242)]"

fun range_start :: "nat \<Rightarrow> (nat \<times> nat) list \<Rightarrow> nat option" where
  "range_start c [] = None"
| "range_start c ((lo, hi) # rs) = (if lo \<le> c \<and> c \<le> hi then Some lo else range_start c rs)"

definition decimal :: "nat \<Rightarrow> nat option" where
  "decimal c = map_option (\<lambda>lo. (c - lo) mod 10) (range_start c decimal_ranges)"

definition isdecimal_char :: "nat \<Rightarrow> bool" where
  "isdecimal_char c = (decimal c \<noteq> None)"

definition isdigit_char :: "nat \<Rightarrow> bool" where
  "isdigit_char c = (isdecimal_char c \<or> range_start c other_digit_ranges \<noteq> None)"

text \<open>\<open>s.isdigit()\<close>: every character is a digit and there is at least one.\<close>

definition isdigit :: "pystr \<Rightarrow> bool" where
  "isdigit s = (s \<noteq> [] \<and> list_all isdigit_char s)"

text \<open>\<open>str(n)\<close> of an integer: its decimal digits, with a minus sign when negative.\<close>

fun str_nat :: "nat \<Rightarrow> pystr" where
  "str_nat n = (if n < 10 then [48 + n] else str_nat (n div 10) @ [48 + n mod 10])"

declare str_nat.simps [simp del]

definition str_int :: "int \<Rightarrow> pystr" where
  "str_int i = (if i < 0 then 45 # str_nat (nat (- i)) else str_nat (nat i))"

definition digits_value :: "pystr \<Rightarrow> nat" where
  "digits_value s = foldl (\<lambda>acc c. 10 * acc + the (decimal c)) 0 s"

text \<open>
  \<open>int(s)\<close> at the program's one call site, where \<open>s.isdigit()\<close> holds, so that \<open>s\<close> has no
  sign, blank or underscore, and \<open>repr(s)\<close> is \<open>s\<close> between single quotes. CPython counts the
  leading decimal digits first and refuses more than \<open>max_str_digits\<close> of them (the
  interpreter's setting: 4300 by default, 0 for no limit, never applied below 641 digits);
  then a character with no decimal value makes the literal invalid, and the message
  shows the first 200 characters of \<open>repr(s)\<close>. Both failures are \<open>ValueError\<close>.
\<close>

definition py_int :: "nat \<Rightarrow> pystr \<Rightarrow> exn + int" where
  "py_int max_str_digits s =
    (let digits = length (takeWhile isdecimal_char s) in
     if 640 < digits \<and> 0 < max_str_digits \<and> max_str_digits < digits then
       Inl (ValueError (py ''Exceeds the limit ('' @ str_nat max_str_digits
         @ py '' digits) for integer string conversion: value has '' @ str_nat digits
         @ py '' digits; use sys.set_int_max_str_digits() to increase the limit''))
     else if s = [] \<or> \<not> list_all isdecimal_char s then
       Inl (ValueError (py ''invalid literal for int() with base 10: ''
         @ take 200 ([39] @ s @ [39])))
     else Inr (int (digits_value s)))"

section \<open>The element tree\<close>

text \<open>
  An \<open>xml.etree.ElementTree.Element\<close>: its tag, its attribute dictionary, its text
  (\<open>None\<close> when the element has none) and its children in document order.
\<close>

datatype element =
  Element (tag: pystr) (attrib: "(pystr \<times> pystr) list") (etext: "pystr option")
    (children: "element list")

text \<open>\<open>elem.iter()\<close>: the element and all its descendants, in document order.\<close>

fun iter :: "element \<Rightarrow> element list" where
  "iter (Element t a x cs) = Element t a x cs # concat (map iter cs)"

text \<open>
  The steps of an ElementPath expression, as \<open>xml.etree.ElementPath\<close> compiles them:
  \<open>.\<close> keeps the context, \<open>//tag\<close> selects the proper descendants with that tag,
  \<open>/tag\<close> the children with that tag.
\<close>

datatype step = Self | Descendant pystr | Child pystr

fun select :: "step \<Rightarrow> element list \<Rightarrow> element list" where
  "select Self result = result"
| "select (Descendant tg) result =
     concat (map (\<lambda>elem. filter (\<lambda>e. tag e = tg) (concat (map iter (children elem)))) result)"
| "select (Child tg) result =
     concat (map (\<lambda>elem. filter (\<lambda>e. tag e = tg) (children elem)) result)"

definition iterfind :: "element \<Rightarrow> step list \<Rightarrow> element list" where
  "iterfind elem path = foldl (\<lambda>result s. select s result) [elem] path"

definition find_el :: "element \<Rightarrow> step list \<Rightarrow> element option" where
  "find_el elem path = (case iterfind elem path of [] \<Rightarrow> None | e # _ \<Rightarrow> Some e)"

text \<open>
  \<open>findtext\<close>: the text of the first match, the empty string when that element has no
  text, and the default (here a Python value that may be \<open>None\<close>) when nothing matches.
\<close>

definition findtext :: "element \<Rightarrow> step list \<Rightarrow> pystr option \<Rightarrow> pystr option" where
  "findtext elem path dflt =
    (case find_el elem path of
       None \<Rightarrow> dflt
     | Some e \<Rightarrow> (case etext e of None \<Rightarrow> Some [] | Some t \<Rightarrow> Some t))"

section \<open>The request extractor\<close>

definition VALID_LANGUAGES :: "pystr set" where
  "VALID_LANGUAGES = {py ''en'', py ''fr'', py ''de'', py ''es''}"

definition DEFAULT_LANGUAGE :: pystr where
  "DEFAULT_LANGUAGE = py ''en''"

definition DEFAULT_OPTIONS_QUOTA :: int where
  "DEFAULT_OPTIONS_QUOTA = 20"

definition MAX_OPTIONS_QUOTA :: int where
  "MAX_OPTIONS_QUOTA = 50"

definition VALID_CURRENCIES :: "pystr set" where
  "VALID_CURRENCIES = {py ''EUR'', py ''USD'', py ''GBP''}"

definition DEFAULT_CURRENCY :: pystr where
  "DEFAULT_CURRENCY = py ''EUR''"

definition VALID_NATIONALITIES :: "pystr set" where
  "VALID_NATIONALITIES = {py ''US'', py ''GB'', py ''CA''}"

definition DEFAULT_NATIONALITY :: pystr where
  "DEFAULT_NATIONALITY = py ''US''"

definition VALID_MARKETS :: "pystr set" where
  "VALID_MARKETS = {py ''US'', py ''GB'', py ''CA'', py ''ES''}"

definition DEFAULT_MARKET :: pystr where
  "DEFAULT_MARKET = py ''ES''"

text \<open>The paths the extractor reads, compiled: \<open>.//source/languageCode\<close> and so on.\<close>

definition languageCode_path :: "step list" where
  "languageCode_path = [Self, Descendant (py ''source''), Child (py ''languageCode'')]"

definition optionsQuota_path :: "step list" where
  "optionsQuota_path = [Self, Descendant (py ''optionsQuota'')]"

definition Parameter_path :: "step list" where
  "Parameter_path =
    [Self, Descendant (py ''Configuration''), Child (py ''Parameters''), Child (py ''Parameter'')]"

definition SearchType_path :: "step list" where
  "SearchType_path = [Self, Descendant (py ''SearchType'')]"

definition StartDate_path :: "step list" where
  "StartDate_path = [Self, Descendant (py ''StartDate'')]"

definition EndDate_path :: "step list" where
  "EndDate_path = [Self, Descendant (py ''EndDate'')]"

definition Currency_path :: "step list" where
  "Currency_path = [Self, Descendant (py ''Currency'')]"

definition Nationality_path :: "step list" where
  "Nationality_path = [Self, Descendant (py ''Nationality'')]"

definition required_params :: "pystr list" where
  "required_params = [py ''password'', py ''username'', py ''CompanyID'']"

definition missing_message :: pystr where
  "missing_message = py ''Missing required parameters: password, username, or CompanyID''"

text \<open>A value of \<open>findtext\<close> as a dictionary value: \<open>None\<close> or a \<open>str\<close>.\<close>

definition text_val :: "pystr option \<Rightarrow> pyval" where
  "text_val t = (case t of None \<Rightarrow> NoneV | Some s \<Rightarrow> StrV s)"

text \<open>
  \<open>x if x in valid else dflt\<close> for a value \<open>x\<close> of \<open>findtext\<close>; \<open>None\<close> is in no set of
  strings.
\<close>

definition valid_or :: "pystr set \<Rightarrow> pystr \<Rightarrow> pystr option \<Rightarrow> pystr" where
  "valid_or valid dflt x =
    (case x of None \<Rightarrow> dflt | Some v \<Rightarrow> if v \<in> valid then v else dflt)"

text \<open>
  \<open>int(options_quota) if options_quota and options_quota.isdigit() else
  DEFAULT_OPTIONS_QUOTA\<close>: \<open>None\<close> and the empty string are false.
\<close>

definition int_or_default :: "nat \<Rightarrow> pystr option \<Rightarrow> exn + int" where
  "int_or_default max_str_digits options_quota =
    (case options_quota of
       None \<Rightarrow> Inr DEFAULT_OPTIONS_QUOTA
     | Some s \<Rightarrow>
         if s \<noteq> [] \<and> isdigit s then py_int max_str_digits s
         else Inr DEFAULT_OPTIONS_QUOTA)"

text \<open>
  \<open>parameters is None or not all(param in parameters.attrib for param in [...])\<close>, for the
  result of \<open>find\<close>.
\<close>

definition credentials_missing :: "element option \<Rightarrow> bool" where
  "credentials_missing parameters =
    (case parameters of
       None \<Rightarrow> True
     | Some p \<Rightarrow> \<not> list_all (\<lambda>param. map_of (attrib p) param \<noteq> None) required_params)"

text \<open>
  \<open>parse_xml_request\<close>. \<open>ET.fromstring\<close> is the library's parser, a parameter here: it
  returns the root element or raises. \<open>max_str_digits\<close> is the interpreter's limit on
  \<open>int\<close> of a string. The statements run in the source's order, so the quota is converted
  before the credentials are looked at.
\<close>

definition parse_xml_request ::
  "(pystr \<Rightarrow> exn + element) \<Rightarrow> nat \<Rightarrow> pystr \<Rightarrow> exn + (pystr \<rightharpoonup> pyval)" where
  "parse_xml_request fromstring max_str_digits xml_string =
    (case fromstring xml_string of
       Inl e \<Rightarrow> Inl e
     | Inr root_el \<Rightarrow>
        (let language = findtext root_el languageCode_path (Some DEFAULT_LANGUAGE);
             language = valid_or VALID_LANGUAGES DEFAULT_LANGUAGE language;
             options_quota = findtext root_el optionsQuota_path None
         in case int_or_default max_str_digits options_quota of
              Inl e \<Rightarrow> Inl e
            | Inr options_quota \<Rightarrow>
               (let options_quota = min options_quota MAX_OPTIONS_QUOTA;
                    parameters = find_el root_el Parameter_path
                in if credentials_missing parameters then Inl (ValueError missing_message)
                   else
                    (let search_type = findtext root_el SearchType_path (Some (py ''Single''));
                         start_date = findtext root_el StartDate_path None;
                         end_date = findtext root_el EndDate_path None;
                         currency = findtext root_el Currency_path (Some DEFAULT_CURRENCY);
                         currency = valid_or VALID_CURRENCIES DEFAULT_CURRENCY currency;
                         nationality =
                           findtext root_el Nationality_path (Some DEFAULT_NATIONALITY);
                         nationality =
                           valid_or VALID_NATIONALITIES DEFAULT_NATIONALITY nationality
                     in Inr [py ''language'' \<mapsto> StrV language,
                             py ''options_quota'' \<mapsto> IntV options_quota,
                             py ''search_type'' \<mapsto> text_val search_type,
                             py ''start_date'' \<mapsto> text_val start_date,
                             py ''end_date'' \<mapsto> text_val end_date,
                             py ''currency'' \<mapsto> StrV currency,
                             py ''nationality'' \<mapsto> StrV nationality]))))"

section \<open>Floating-point numbers\<close>

text \<open>
  A Python \<open>float\<close> is an IEEE 754 binary64 number; the model holds its exact value as a
  real number and rounds after every operation, to nearest with ties to even. No value
  of this program is infinite or not a number: its floats are constants of the source and
  what is computed from them.
\<close>

type_synonym pyfloat = real

text \<open>\<open>int.bit_length\<close>: the number of binary digits of a natural number.\<close>

fun bit_length :: "nat \<Rightarrow> nat" where
  "bit_length n = (if n = 0 then 0 else Suc (bit_length (n div 2)))"

declare bit_length.simps [simp del]

text \<open>The integer \<open>k\<close> with \<open>2 ^ k \<le> x < 2 ^ (k + 1)\<close>, for a positive \<open>x\<close>.\<close>

definition ilog2 :: "real \<Rightarrow> int" where
  "ilog2 x =
    (if 1 \<le> x then int (bit_length (nat \<lfloor>x\<rfloor>)) - 1
     else - int (bit_length (nat (\<lceil>1 / x\<rceil> - 1))))"

definition pow2 :: "int \<Rightarrow> real" where
  "pow2 e = (if 0 \<le> e then 2 ^ nat e else 1 / 2 ^ nat (- e))"

definition round_half_even :: "real \<Rightarrow> int" where
  "round_half_even x =
    (let f = \<lfloor>x\<rfloor>; d = x - of_int f
     in if d < 1 / 2 then f else if 1 / 2 < d then f + 1 else if even f then f else f + 1)"

text \<open>
  The binary64 number nearest to \<open>x\<close>: 53 significant bits, the exponent of the last bit
  bounded below by that of the subnormal numbers.
\<close>

definition binary64 :: "real \<Rightarrow> pyfloat" where
  "binary64 x =
    (if x = 0 then 0
     else (let e = max (ilog2 \<bar>x\<bar>) (- 1022) - 52
           in of_int (round_half_even (x / pow2 e)) * pow2 e))"

text \<open>
  A float literal of the source, given by its digits and the number of them after the
  point: \<open>132.42\<close> is \<open>float_literal 13242 2\<close>.
\<close>

definition float_literal :: "int \<Rightarrow> nat \<Rightarrow> pyfloat" where
  "float_literal digits places = binary64 (of_int digits / 10 ^ places)"

definition fadd :: "pyfloat \<Rightarrow> pyfloat \<Rightarrow> pyfloat" where
  "fadd a b = binary64 (a + b)"

definition fmul :: "pyfloat \<Rightarrow> pyfloat \<Rightarrow> pyfloat" where
  "fmul a b = binary64 (a * b)"

text \<open>Division by a number that is not zero (the program divides by 100 only).\<close>

definition fdiv :: "pyfloat \<Rightarrow> pyfloat \<Rightarrow> pyfloat" where
  "fdiv a b = binary64 (a / b)"

text \<open>
  \<open>round(x, ndigits)\<close> of a float: CPython rounds the exact value of \<open>x\<close> to \<open>ndigits\<close>
  decimal places, ties to even, and returns the float nearest to that decimal number.
\<close>

definition py_round :: "pyfloat \<Rightarrow> nat \<Rightarrow> pyfloat" where
  "py_round x ndigits = binary64 (of_int (round_half_even (x * 10 ^ ndigits)) / 10 ^ ndigits)"

section \<open>The response builder\<close>

text \<open>
  The value \<open>json.dumps\<close> serialises. The model keeps the value and leaves its text to the
  library: a float is written with the shortest decimal that reads back as the same float.
\<close>

datatype json =
  JNull | JStr pystr | JInt int | JFloat pyfloat | JList "json list"
  | JDict "(pystr \<times> json) list"

definition to_json :: "pyval \<Rightarrow> json" where
  "to_json v = (case v of NoneV \<Rightarrow> JNull | StrV s \<Rightarrow> JStr s | IntV i \<Rightarrow> JInt i)"

definition MARKUP_PERCENTAGE :: pyfloat where
  "MARKUP_PERCENTAGE = float_literal 32 1"

definition EXCHANGE_RATES :: "pystr \<rightharpoonup> pyfloat" where
  "EXCHANGE_RATES =
    [py ''EUR'' \<mapsto> float_literal 10 1, py ''USD'' \<mapsto> float_literal 11 1,
     py ''GBP'' \<mapsto> float_literal 9 1]"

text \<open>
  \<open>generate_json_response\<close>. The clock's formatted time and the number drawn by
  \<open>random.randint\<close> are parameters. \<open>parsed_data["currency"]\<close> raises \<open>KeyError\<close> on a
  dictionary without that key; \<open>EXCHANGE_RATES.get\<close> and \<open>parsed_data.get\<close> fall back to
  their defaults.
\<close>

definition generate_json_response :: "pystr \<Rightarrow> int \<Rightarrow> (pystr \<rightharpoonup> pyval) \<Rightarrow> exn + json" where
  "generate_json_response current_time randint parsed_data =
    (let hotel_code_supplier = str_int randint;
         net_price = float_literal 13242 2;
         markup = fdiv MARKUP_PERCENTAGE 100;
         selling_price = py_round (fmul net_price (fadd 1 markup)) 2
     in case parsed_data (py ''currency'') of
          None \<Rightarrow> Inl (KeyError (py ''currency''))
        | Some currency \<Rightarrow>
           (let exchange_rate =
                  (case currency of
                     StrV c \<Rightarrow>
                       (case EXCHANGE_RATES c of Some r \<Rightarrow> r
                        | None \<Rightarrow> float_literal 10 1)
                   | _ \<Rightarrow> float_literal 10 1);
                selling_currency = currency
            in Inr (JList [JDict
                 [(py ''id'', JStr (py ''A#'' @ current_time)),
                  (py ''hotelCodeSupplier'', JStr hotel_code_supplier),
                  (py ''market'',
                     to_json (case parsed_data (py ''nationality'') of
                                Some v \<Rightarrow> v
                              | None \<Rightarrow> StrV DEFAULT_MARKET)),
                  (py ''price'', JDict
                    [(py ''minimumSellingPrice'', JNull),
                     (py ''currency'', to_json currency),
                     (py ''net'', JFloat net_price),
                     (py ''selling_price'', JFloat selling_price),
                     (py ''selling_currency'', to_json selling_currency),
                     (py ''markup'', JFloat MARKUP_PERCENTAGE),
                     (py ''exchange_rate'', JFloat exchange_rate)])]])))"

section \<open>The program\<close>

text \<open>What a run leaves behind: a printed document, or an exception no handler caught.\<close>

datatype outcome = Printed json | Uncaught exn

text \<open>The \<open>except ValueError\<close> clause: any other exception leaves the program.\<close>

definition except_ValueError :: "exn \<Rightarrow> outcome" where
  "except_ValueError e =
    (case e of
       ValueError msg \<Rightarrow> Printed (JDict [(py ''error'', JStr msg)])
     | _ \<Rightarrow> Uncaught e)"

text \<open>The module's \<open>try\<close> block, for any input in place of the sample \<open>xml_input\<close>.\<close>

definition main ::
  "(pystr \<Rightarrow> exn + element) \<Rightarrow> nat \<Rightarrow> pystr \<Rightarrow> int \<Rightarrow> pystr \<Rightarrow> outcome" where
  "main fromstring max_str_digits current_time randint xml_input =
    (case parse_xml_request fromstring max_str_digits xml_input of
       Inl e \<Rightarrow> except_ValueError e
     | Inr parsed_data \<Rightarrow>
        (case generate_json_response current_time randint parsed_data of
           Inl e \<Rightarrow> except_ValueError e
         | Inr json_response \<Rightarrow> Printed json_response))"

section \<open>Reading a printed document\<close>

text \<open>
  The fields the properties below speak of: a key of a JSON object, a key of the one
  offer in the printed array, and a key of that offer's \<open>price\<close> block.
\<close>

definition field :: "pystr \<Rightarrow> json \<Rightarrow> json option" where
  "field k j = (case j of JDict kvs \<Rightarrow> map_of kvs k | _ \<Rightarrow> None)"

definition offer_field :: "pystr \<Rightarrow> json \<Rightarrow> json option" where
  "offer_field k j = (case j of JList [obj] \<Rightarrow> field k obj | _ \<Rightarrow> None)"

definition price_field :: "pystr \<Rightarrow> json \<Rightarrow> json option" where
  "price_field k j =
    (case offer_field (py ''price'') j of Some p \<Rightarrow> field k p | None \<Rightarrow> None)"

section \<open>Example documents\<close>

text \<open>
  The element tree of the sample \<open>xml_input\<close> of the source. The namespace declarations of
  its root are no attributes; the text of an element that only holds children is the
  line break and indentation before its first child.
\<close>

definition sample_root :: element where
  "sample_root =
    Element (py ''AvailRQ'') [] (Some (10 # py ''    ''))
     [Element (py ''timeoutMilliseconds'') [] (Some (py ''25000'')) [],
      Element (py ''source'') [] (Some (10 # py ''        ''))
       [Element (py ''languageCode'') [] (Some (py ''en'')) []],
      Element (py ''optionsQuota'') [] (Some (py ''20'')) [],
      Element (py ''Configuration'') [] (Some (10 # py ''        ''))
       [Element (py ''Parameters'') [] (Some (10 # py ''            ''))
         [Element (py ''Parameter'')
           [(py ''password'', py ''XXXXXXXXXX''), (py ''username'', py ''YYYYYYYYY''),
            (py ''CompanyID'', py ''123456'')] None []]],
      Element (py ''SearchType'') [] (Some (py ''Multiple'')) [],
      Element (py ''StartDate'') [] (Some (py ''14/10/2024'')) [],
      Element (py ''EndDate'') [] (Some (py ''16/10/2024'')) [],
      Element (py ''Currency'') [] (Some (py ''USD'')) [],
      Element (py ''Nationality'') [] (Some (py ''US'')) []]"

text \<open>What the extractor returns on the sample.\<close>

definition sample_parsed :: "pystr \<rightharpoonup> pyval" where
  "sample_parsed =
    [py ''language'' \<mapsto> StrV (py ''en''),
     py ''options_quota'' \<mapsto> IntV 20,
     py ''search_type'' \<mapsto> StrV (py ''Multiple''),
     py ''start_date'' \<mapsto> StrV (py ''14/10/2024''),
     py ''end_date'' \<mapsto> StrV (py ''16/10/2024''),
     py ''currency'' \<mapsto> StrV (py ''USD''),
     py ''nationality'' \<mapsto> StrV (py ''US'')]"

text \<open>
  A request with its credentials, or without them when \<open>creds\<close> is empty, and with the given
  text in \<open>optionsQuota\<close>.
\<close>

definition quota_request :: "(pystr \<times> pystr) list \<Rightarrow> pystr \<Rightarrow> element" where
  "quota_request creds quota =
    Element (py ''AvailRQ'') [] None
     [Element (py ''optionsQuota'') [] (Some quota) [],
      Element (py ''Configuration'') [] None
       [Element (py ''Parameters'') [] None [Element (py ''Parameter'') creds None []]]]"

definition credentials :: "(pystr \<times> pystr) list" where
  "credentials =
    [(py ''password'', py ''XXXXXXXXXX''), (py ''username'', py ''YYYYYYYYY''),
     (py ''CompanyID'', py ''123456'')]"

text \<open>
  A parser that reads its input as the given tree, and one that raises the given
  exception.
\<close>

definition reads_as :: "element \<Rightarrow> pystr \<Rightarrow> exn + element" where
  "reads_as e xml_string = Inr e"

definition fails_with :: "exn \<Rightarrow> pystr \<Rightarrow> exn + element" where
  "fails_with e xml_string = Inl e"

text \<open>A time of the clock, a number drawn, and what the sample run prints with them.\<close>

definition sample_time :: pystr where
  "sample_time = py ''20250219101500''"

definition sample_code :: int where
  "sample_code = 12345678"

definition sample_response :: json where
  "sample_response =
    JList [JDict
      [(py ''id'', JStr (py ''A#20250219101500'')),
       (py ''hotelCodeSupplier'', JStr (py ''12345678'')),
       (py ''market'', JStr (py ''US'')),
       (py ''price'', JDict
         [(py ''minimumSellingPrice'', JNull),
          (py ''currency'', JStr (py ''USD'')),
          (py ''net'', JFloat (float_literal 13242 2)),
          (py ''selling_price'', JFloat (float_literal 13666 2)),
          (py ''selling_currency'', JStr (py ''USD'')),
          (py ''markup'', JFloat (float_literal 32 1)),
          (py ''exchange_rate'', JFloat (float_literal 11 1))])]]"

text \<open>
  A document that carries the values of a normalized record: one element for each
  field that is not \<open>None\<close>, with the field's value as its text, and the credentials.
\<close>

definition text_element :: "pystr \<Rightarrow> pyval option \<Rightarrow> element list" where
  "text_element tg v =
    (case v of
       Some (StrV s) \<Rightarrow> [Element tg [] (Some s) []]
     | Some (IntV i) \<Rightarrow> [Element tg [] (Some (str_int i)) []]
     | _ \<Rightarrow> [])"

definition normalized_document :: "(pystr \<rightharpoonup> pyval) \<Rightarrow> element" where
  "normalized_document d =
    Element (py ''AvailRQ'') [] None
     ([Element (py ''source'') [] None (text_element (py ''languageCode'') (d (py ''language'')))]
      @ text_element (py ''optionsQuota'') (d (py ''options_quota''))
      @ [Element (py ''Configuration'') [] None
          [Element (py ''Parameters'') [] None [Element (py ''Parameter'') credentials None []]]]
      @ text_element (py ''SearchType'') (d (py ''search_type''))
      @ text_element (py ''StartDate'') (d (py ''start_date''))
      @ text_element (py ''EndDate'') (d (py ''end_date''))
      @ text_element (py ''Currency'') (d (py ''currency''))
      @ text_element (py ''Nationality'') (d (py ''nationality'')))"

text \<open>
  A request with a language and a currency outside the allowed sets, no nationality, no
  quota and no dates, and a \<open>SearchType\<close> element without text; and what the extractor
  returns on it.
\<close>

definition defaulted_request :: element where
  "defaulted_request =
    Element (py ''AvailRQ'') [] None
     [Element (py ''source'') [] None [Element (py ''languageCode'') [] (Some (py ''it'')) []],
      Element (py ''Configuration'') [] None
       [Element (py ''Parameters'') [] None [Element (py ''Parameter'') credentials None []]],
      Element (py ''SearchType'') [] None [],
      Element (py ''Currency'') [] (Some (py ''XYZ'')) []]"

definition defaulted_parsed :: "pystr \<rightharpoonup> pyval" where
  "defaulted_parsed =
    [py ''language'' \<mapsto> StrV (py ''en''),
     py ''options_quota'' \<mapsto> IntV 20,
     py ''search_type'' \<mapsto> StrV [],
     py ''start_date'' \<mapsto> NoneV,
     py ''end_date'' \<mapsto> NoneV,
     py ''currency'' \<mapsto> StrV (py ''EUR''),
     py ''nationality'' \<mapsto> StrV (py ''US'')]"

section \<open>Evaluation lemmas\<close>

lemma py_inj [simp]: "py a = py b \<longleftrightarrow> a = b"
  by (simp add: py_def inj_map_eq_map inj_on_def)

lemma py_Nil [simp]: "py [] = []"
  by (simp add: py_def)

lemma py_eq_Nil [simp]: "py s = [] \<longleftrightarrow> s = []" "[] = py s \<longleftrightarrow> s = []"
  by (auto simp add: py_def)

lemmas unicode_defs =
  isdigit_def isdigit_char_def isdecimal_char_def decimal_def decimal_ranges_def
  other_digit_ranges_def

lemmas path_defs =
  languageCode_path_def optionsQuota_path_def Parameter_path_def SearchType_path_def
  StartDate_path_def EndDate_path_def Currency_path_def Nationality_path_def

lemmas find_defs = findtext_def find_el_def iterfind_def

lemmas const_defs =
  VALID_LANGUAGES_def DEFAULT_LANGUAGE_def DEFAULT_OPTIONS_QUOTA_def MAX_OPTIONS_QUOTA_def
  VALID_CURRENCIES_def DEFAULT_CURRENCY_def VALID_NATIONALITIES_def DEFAULT_NATIONALITY_def
  DEFAULT_MARKET_def required_params_def

lemma bit_length_0 [simp]: "bit_length 0 = 0"
  by (simp add: bit_length.simps)

lemma bit_length_1 [simp]: "bit_length (Suc 0) = 1"
  by (simp add: bit_length.simps)

lemma bit_length_numeral [simp]:
  "bit_length (numeral k) = Suc (bit_length (numeral k div 2))"
  by (subst bit_length.simps) simp

lemmas float_defs =
  binary64_def ilog2_def pow2_def round_half_even_def Let_def fadd_def fmul_def fdiv_def
  py_round_def

text \<open>The floats of the program, as the fractions they are.\<close>

lemma MARKUP_PERCENTAGE_value: "MARKUP_PERCENTAGE = 3602879701896397 / 2 ^ 50"
  by (simp add: MARKUP_PERCENTAGE_def float_literal_def float_defs)

lemma net_price_value: "float_literal 13242 2 = 4659114552003133 / 2 ^ 45"
  by (simp add: float_literal_def float_defs)

lemma markup_value: "fdiv (3602879701896397 / 2 ^ 50) 100 = 1152921504606847 / 2 ^ 55"
  by (simp add: float_defs)

lemma one_plus_markup_value: "fadd 1 (1152921504606847 / 2 ^ 55) = 290482175965397 / 2 ^ 48"
  by (simp add: float_defs)

lemma product_value:
  "fmul (4659114552003133 / 2 ^ 45) (290482175965397 / 2 ^ 48) = 4808206217667233 / 2 ^ 45"
  by (simp add: float_defs)

lemma rounded_value: "py_round (4808206217667233 / 2 ^ 45) 2 = 4808296289659781 / 2 ^ 45"
  by (simp add: float_defs)

lemma float_136_66: "float_literal 13666 2 = 4808296289659781 / 2 ^ 45"
  by (simp add: float_literal_def float_defs)

lemma float_136_58: "float_literal 13658 2 = 4805481539892675 / 2 ^ 45"
  by (simp add: float_literal_def float_defs)

lemma selling_price_value:
  "py_round (fmul (float_literal 13242 2) (fadd 1 (fdiv MARKUP_PERCENTAGE 100))) 2
     = float_literal 13666 2"
  by (simp only: MARKUP_PERCENTAGE_value net_price_value markup_value one_plus_markup_value
      product_value rounded_value float_136_66)

lemma float_1_0: "float_literal 10 1 = 1"
  by (simp add: float_literal_def float_defs)

lemma float_1_1: "float_literal 11 1 = 2476979795053773 / 2 ^ 51"
  by (simp add: float_literal_def float_defs)

lemma float_0_9: "float_literal 9 1 = 8106479329266893 / 2 ^ 53"
  by (simp add: float_literal_def float_defs)

subsection \<open>The extractor, case by case\<close>

lemma findtext_Some:
  "findtext r p (Some d) = Some (case findtext r p None of None \<Rightarrow> d | Some t \<Rightarrow> t)"
  by (simp add: findtext_def split: option.splits)

lemma parse_xml_request_Inl:
  "fromstring xml_string = Inl e \<Longrightarrow> parse_xml_request fromstring l xml_string = Inl e"
  by (simp add: parse_xml_request_def)

lemma parse_xml_request_quota_error:
  "fromstring xml_string = Inr r \<Longrightarrow> int_or_default l (findtext r optionsQuota_path None) = Inl e
    \<Longrightarrow> parse_xml_request fromstring l xml_string = Inl e"
  by (simp add: parse_xml_request_def)

lemma parse_xml_request_missing:
  "fromstring xml_string = Inr r \<Longrightarrow> int_or_default l (findtext r optionsQuota_path None) = Inr q
    \<Longrightarrow> credentials_missing (find_el r Parameter_path)
    \<Longrightarrow> parse_xml_request fromstring l xml_string = Inl (ValueError missing_message)"
  by (simp add: parse_xml_request_def)

lemma parse_xml_request_record:
  "fromstring xml_string = Inr r \<Longrightarrow> int_or_default l (findtext r optionsQuota_path None) = Inr q
    \<Longrightarrow> \<not> credentials_missing (find_el r Parameter_path)
    \<Longrightarrow> parse_xml_request fromstring l xml_string =
      Inr [py ''language'' \<mapsto>
             StrV (valid_or VALID_LANGUAGES DEFAULT_LANGUAGE
                    (findtext r languageCode_path (Some DEFAULT_LANGUAGE))),
           py ''options_quota'' \<mapsto> IntV (min q MAX_OPTIONS_QUOTA),
           py ''search_type'' \<mapsto> text_val (findtext r SearchType_path (Some (py ''Single''))),
           py ''start_date'' \<mapsto> text_val (findtext r StartDate_path None),
           py ''end_date'' \<mapsto> text_val (findtext r EndDate_path None),
           py ''currency'' \<mapsto>
             StrV (valid_or VALID_CURRENCIES DEFAULT_CURRENCY
                    (findtext r Currency_path (Some DEFAULT_CURRENCY))),
           py ''nationality'' \<mapsto>
             StrV (valid_or VALID_NATIONALITIES DEFAULT_NATIONALITY
                    (findtext r Nationality_path (Some DEFAULT_NATIONALITY)))]"
  by (simp add: parse_xml_request_def)

text \<open>A record is returned exactly when the three steps that can raise do not.\<close>

lemma parse_xml_request_InrE:
  assumes "parse_xml_request fromstring l xml_string = Inr d"
  obtains r q where "fromstring xml_string = Inr r"
    and "int_or_default l (findtext r optionsQuota_path None) = Inr q"
    and "\<not> credentials_missing (find_el r Parameter_path)"
proof (cases "fromstring xml_string")
  case (Inl e)
  with assms show ?thesis by (simp add: parse_xml_request_def)
next
  case (Inr r)
  show ?thesis
  proof (cases "int_or_default l (findtext r optionsQuota_path None)")
    case (Inl e)
    with assms Inr show ?thesis by (simp add: parse_xml_request_def)
  next
    case q: (Inr q)
    with assms Inr have "\<not> credentials_missing (find_el r Parameter_path)"
      by (auto simp add: parse_xml_request_def Let_def split: if_splits)
    with Inr q that show ?thesis by blast
  qed
qed

lemma valid_or_in: "dflt \<in> valid \<Longrightarrow> valid_or valid dflt x \<in> valid"
  by (simp add: valid_or_def split: option.splits)

lemma valid_or_default:
  "x = None \<or> (\<exists>v. x = Some v \<and> v \<notin> valid) \<Longrightarrow> valid_or valid dflt x = dflt"
  by (auto simp add: valid_or_def)

lemma valid_or_findtext:
  "valid_or valid dflt (findtext r p (Some dflt)) = valid_or valid dflt (findtext r p None)"
  by (simp add: valid_or_def findtext_def split: option.splits)


subsection \<open>The builder, case by case\<close>

lemma generate_json_response_KeyError:
  "d (py ''currency'') = None
    \<Longrightarrow> generate_json_response t n d = Inl (KeyError (py ''currency''))"
  by (simp add: generate_json_response_def)

lemma generate_json_response_Inr:
  "d (py ''currency'') = Some cur \<Longrightarrow>
    generate_json_response t n d =
      Inr (JList [JDict
        [(py ''id'', JStr (py ''A#'' @ t)),
         (py ''hotelCodeSupplier'', JStr (str_int n)),
         (py ''market'',
            to_json (case d (py ''nationality'') of Some v \<Rightarrow> v | None \<Rightarrow> StrV DEFAULT_MARKET)),
         (py ''price'', JDict
           [(py ''minimumSellingPrice'', JNull),
            (py ''currency'', to_json cur),
            (py ''net'', JFloat (float_literal 13242 2)),
            (py ''selling_price'', JFloat (float_literal 13666 2)),
            (py ''selling_currency'', to_json cur),
            (py ''markup'', JFloat MARKUP_PERCENTAGE),
            (py ''exchange_rate'', JFloat
              (case cur of
                 StrV c \<Rightarrow> (case EXCHANGE_RATES c of Some r \<Rightarrow> r | None \<Rightarrow> float_literal 10 1)
               | _ \<Rightarrow> float_literal 10 1))])]])"
  by (simp add: generate_json_response_def selling_price_value Let_def)

lemma parsed_currency:
  assumes "parse_xml_request fromstring l xml_string = Inr d"
  obtains c where "d (py ''currency'') = Some (StrV c)" and "c \<in> VALID_CURRENCIES"
proof -
  from assms obtain r q where r: "fromstring xml_string = Inr r"
    and q: "int_or_default l (findtext r optionsQuota_path None) = Inr q"
    and c: "\<not> credentials_missing (find_el r Parameter_path)"
    by (rule parse_xml_request_InrE)
  have "d (py ''currency'') = Some (StrV (valid_or VALID_CURRENCIES DEFAULT_CURRENCY
          (findtext r Currency_path (Some DEFAULT_CURRENCY))))"
    using assms parse_xml_request_record [of fromstring xml_string r l q, OF r q c] by auto
  moreover have "valid_or VALID_CURRENCIES DEFAULT_CURRENCY
      (findtext r Currency_path (Some DEFAULT_CURRENCY)) \<in> VALID_CURRENCIES"
    by (rule valid_or_in) (simp add: const_defs)
  ultimately show ?thesis using that by blast
qed

lemma parsed_nationality:
  assumes "parse_xml_request fromstring l xml_string = Inr d"
  obtains n where "d (py ''nationality'') = Some (StrV n)" and "n \<in> VALID_NATIONALITIES"
proof -
  from assms obtain r q where r: "fromstring xml_string = Inr r"
    and q: "int_or_default l (findtext r optionsQuota_path None) = Inr q"
    and c: "\<not> credentials_missing (find_el r Parameter_path)"
    by (rule parse_xml_request_InrE)
  have "d (py ''nationality'') = Some (StrV (valid_or VALID_NATIONALITIES DEFAULT_NATIONALITY
          (findtext r Nationality_path (Some DEFAULT_NATIONALITY))))"
    using assms parse_xml_request_record [of fromstring xml_string r l q, OF r q c] by auto
  moreover have "valid_or VALID_NATIONALITIES DEFAULT_NATIONALITY
      (findtext r Nationality_path (Some DEFAULT_NATIONALITY)) \<in> VALID_NATIONALITIES"
    by (rule valid_or_in) (simp add: const_defs)
  ultimately show ?thesis using that by blast
qed

lemma parsed_language:
  assumes "parse_xml_request fromstring l xml_string = Inr d"
  obtains g where "d (py ''language'') = Some (StrV g)" and "g \<in> VALID_LANGUAGES"
proof -
  from assms obtain r q where r: "fromstring xml_string = Inr r"
    and q: "int_or_default l (findtext r optionsQuota_path None) = Inr q"
    and c: "\<not> credentials_missing (find_el r Parameter_path)"
    by (rule parse_xml_request_InrE)
  have "d (py ''language'') = Some (StrV (valid_or VALID_LANGUAGES DEFAULT_LANGUAGE
          (findtext r languageCode_path (Some DEFAULT_LANGUAGE))))"
    using assms parse_xml_request_record [of fromstring xml_string r l q, OF r q c] by auto
  moreover have "valid_or VALID_LANGUAGES DEFAULT_LANGUAGE
      (findtext r languageCode_path (Some DEFAULT_LANGUAGE)) \<in> VALID_LANGUAGES"
    by (rule valid_or_in) (simp add: const_defs)
  ultimately show ?thesis using that by blast
qed

text \<open>A run whose extraction succeeds prints an offer: the builder finds its keys.\<close>

lemma main_success:
  assumes "parse_xml_request fromstring l xml_input = Inr d"
  obtains c n j where "d (py ''currency'') = Some (StrV c)" and "c \<in> VALID_CURRENCIES"
    and "d (py ''nationality'') = Some (StrV n)" and "n \<in> VALID_NATIONALITIES"
    and "generate_json_response t k d = Inr j"
    and "main fromstring l t k xml_input = Printed j"
proof -
  from assms obtain c where c: "d (py ''currency'') = Some (StrV c)" "c \<in> VALID_CURRENCIES"
    by (rule parsed_currency)
  from assms obtain n where n: "d (py ''nationality'') = Some (StrV n)"
    "n \<in> VALID_NATIONALITIES"
    by (rule parsed_nationality)
  obtain j where j: "generate_json_response t k d = Inr j"
    using generate_json_response_Inr [where d = d and cur = "StrV c", OF c(1)] by blast
  have "main fromstring l t k xml_input = Printed j"
    using assms j by (simp add: main_def)
  with c n j that show ?thesis by blast
qed

lemma price_field_Inr:
  assumes "generate_json_response t n d = Inr j" and "d (py ''currency'') = Some cur"
  shows "price_field (py ''selling_price'') j = Some (JFloat (float_literal 13666 2))"
    and "price_field (py ''net'') j = Some (JFloat (float_literal 13242 2))"
    and "price_field (py ''markup'') j = Some (JFloat MARKUP_PERCENTAGE)"
    and "price_field (py ''currency'') j = Some (to_json cur)"
    and "price_field (py ''selling_currency'') j = Some (to_json cur)"
    and "price_field (py ''minimumSellingPrice'') j = Some JNull"
    and "price_field (py ''exchange_rate'') j = Some (JFloat
          (case cur of
             StrV c \<Rightarrow> (case EXCHANGE_RATES c of Some r \<Rightarrow> r | None \<Rightarrow> float_literal 10 1)
           | _ \<Rightarrow> float_literal 10 1))"
  using assms(1) unfolding generate_json_response_Inr [where d = d and cur = cur, OF assms(2)]
  by (auto simp add: price_field_def offer_field_def field_def)

lemma offer_field_market:
  assumes "generate_json_response t n d = Inr j" and "d (py ''currency'') = Some cur"
  shows "offer_field (py ''market'') j =
    Some (to_json (case d (py ''nationality'') of Some v \<Rightarrow> v | None \<Rightarrow> StrV DEFAULT_MARKET))"
  using assms(1) unfolding generate_json_response_Inr [where d = d and cur = cur, OF assms(2)]
  by (auto simp add: offer_field_def field_def)

lemma EXCHANGE_RATES_values:
  "EXCHANGE_RATES (py ''EUR'') = Some (float_literal 10 1)"
  "EXCHANGE_RATES (py ''USD'') = Some (float_literal 11 1)"
  "EXCHANGE_RATES (py ''GBP'') = Some (float_literal 9 1)"
  "c \<notin> {py ''EUR'', py ''USD'', py ''GBP''} \<Longrightarrow> EXCHANGE_RATES c = None"
  by (simp_all add: EXCHANGE_RATES_def)

subsection \<open>The sample run\<close>

lemma sample_findtexts:
  "findtext sample_root languageCode_path dflt = Some (py ''en'')"
  "findtext sample_root optionsQuota_path dflt = Some (py ''20'')"
  "findtext sample_root SearchType_path dflt = Some (py ''Multiple'')"
  "findtext sample_root StartDate_path dflt = Some (py ''14/10/2024'')"
  "findtext sample_root EndDate_path dflt = Some (py ''16/10/2024'')"
  "findtext sample_root Currency_path dflt = Some (py ''USD'')"
  "findtext sample_root Nationality_path dflt = Some (py ''US'')"
  by (simp_all add: sample_root_def find_defs path_defs)

lemma quota_20: "py ''20'' \<noteq> []" "isdigit (py ''20'')" "py_int l (py ''20'') = Inr 20"
  by (simp_all add: py_def unicode_defs py_int_def digits_value_def)

lemma sample_Parameter:
  "\<not> credentials_missing (find_el sample_root Parameter_path)"
  by (simp add: sample_root_def find_defs path_defs credentials_missing_def required_params_def)

lemma sample_parse: "parse_xml_request (reads_as sample_root) l x = Inr sample_parsed"
  by (simp add: parse_xml_request_def reads_as_def sample_findtexts sample_Parameter quota_20
      sample_parsed_def valid_or_def const_defs text_val_def int_or_default_def)

lemma sample_parsed_fields:
  "sample_parsed (py ''currency'') = Some (StrV (py ''USD''))"
  "sample_parsed (py ''nationality'') = Some (StrV (py ''US''))"
  "sample_parsed (py ''language'') = Some (StrV (py ''en''))"
  "sample_parsed (py ''options_quota'') = Some (IntV 20)"
  "sample_parsed (py ''search_type'') = Some (StrV (py ''Multiple''))"
  by (simp_all add: sample_parsed_def)


lemma str_nat_0 [simp]: "str_nat 0 = [48]"
  by (simp add: str_nat.simps)

lemma str_nat_1 [simp]: "str_nat (Suc 0) = [49]"
  by (simp add: str_nat.simps)

lemma str_nat_numeral [simp]:
  "str_nat (numeral k) =
    (if numeral k < (10::nat) then [48 + numeral k]
     else str_nat (numeral k div 10) @ [48 + numeral k mod 10])"
  by (subst str_nat.simps) simp

lemma sample_code_str: "str_int sample_code = py ''12345678''"
  by (simp add: sample_code_def str_int_def py_def)

lemma sample_id: "py ''A#'' @ sample_time = py ''A#20250219101500''"
  by (simp add: sample_time_def py_def)

lemma sample_main: "main (reads_as sample_root) l sample_time sample_code x = Printed sample_response"
proof -
  have "generate_json_response sample_time sample_code sample_parsed = Inr sample_response"
    unfolding generate_json_response_Inr
      [where d = sample_parsed and cur = "StrV (py ''USD'')", OF sample_parsed_fields(1)]
    by (simp add: sample_response_def sample_parsed_fields to_json_def sample_code_str
        sample_id EXCHANGE_RATES_def MARKUP_PERCENTAGE_def)
  then show ?thesis
    by (simp add: main_def sample_parse)
qed

section \<open>The claims\<close>

text \<open>
  Claim C1 says that for every input string that is not well-formed XML the program
  emits a JSON error document and never ends with an uncaught exception. The program
  does otherwise: the parser's \<open>ParseError\<close> is a \<open>SyntaxError\<close>, the handler catches
  \<open>ValueError\<close> only, and so the exception leaves the program whatever the input was.
\<close>

theorem malformed_input_is_uncaught:
  "fromstring xml_input = Inl (ParseError msg)
    \<Longrightarrow> main fromstring max_str_digits current_time randint xml_input
          = Uncaught (ParseError msg)"
  by (simp add: main_def parse_xml_request_def except_ValueError_def)

theorem malformed_input_is_uncaught_witness:
  "main (fails_with (ParseError (py ''no element found: line 1, column 9''))) 4300
      sample_time sample_code (py ''<AvailRQ>'')
    = Uncaught (ParseError (py ''no element found: line 1, column 9''))"
  using malformed_input_is_uncaught
    [of "fails_with (ParseError (py ''no element found: line 1, column 9''))"
      "py ''<AvailRQ>''" "py ''no element found: line 1, column 9''" 4300 sample_time
      sample_code]
  by (simp add: fails_with_def)

text \<open>
  Claim C2, amended: in every run whose extraction succeeds, the printed selling price
  is \<open>round(net_price * (1 + MARKUP_PERCENTAGE / 100), 2)\<close> for the net price 132.42 and the
  markup 3.2 of the source, and this float is 136.66.
\<close>

theorem selling_price_of_every_run:
  assumes "parse_xml_request fromstring l xml_input = Inr d"
  shows "\<exists>j. main fromstring l t k xml_input = Printed j
    \<and> price_field (py ''selling_price'') j =
        Some (JFloat (py_round
          (fmul (float_literal 13242 2) (fadd 1 (fdiv (float_literal 32 1) 100))) 2))
    \<and> price_field (py ''selling_price'') j = Some (JFloat (float_literal 13666 2))"
proof -
  from assms obtain c n j where c: "d (py ''currency'') = Some (StrV c)"
    and j: "generate_json_response t k d = Inr j"
    and m: "main fromstring l t k xml_input = Printed j"
    by (rule main_success)
  have "price_field (py ''selling_price'') j = Some (JFloat (float_literal 13666 2))"
    using j c by (rule price_field_Inr)
  with m show ?thesis
    using selling_price_value by (simp add: MARKUP_PERCENTAGE_def)
qed

theorem selling_price_of_every_run_witness:
  "parse_xml_request (reads_as sample_root) 4300 [] = Inr sample_parsed
    \<and> (\<exists>j. main (reads_as sample_root) 4300 sample_time sample_code [] = Printed j
      \<and> price_field (py ''selling_price'') j =
          Some (JFloat (py_round
            (fmul (float_literal 13242 2) (fadd 1 (fdiv (float_literal 32 1) 100))) 2))
      \<and> price_field (py ''selling_price'') j = Some (JFloat (float_literal 13666 2)))"
  using selling_price_of_every_run
    [of "reads_as sample_root" 4300 "[]" sample_parsed sample_time sample_code]
  by (simp add: sample_parse)

text \<open>
  The claim as it was written fails on the sample request of the source: the price
  printed there is the float 136.66, which is not the float 136.58.
\<close>

theorem selling_price_is_not_136_58:
  "main (reads_as sample_root) 4300 sample_time sample_code [] = Printed sample_response
    \<and> price_field (py ''selling_price'') sample_response
        = Some (JFloat (float_literal 13666 2))
    \<and> price_field (py ''selling_price'') sample_response
        \<noteq> Some (JFloat (float_literal 13658 2))"
  by (simp add: sample_main)
    (simp add: sample_response_def price_field_def offer_field_def field_def float_136_66
      float_136_58)


text \<open>
  Claim C7: in every run whose extraction succeeds, the printed \<open>market\<close> is the
  nationality of the normalized record, one of US, GB and CA; the record always has a
  nationality, so the fallback market \<open>ES\<close> is never printed.
\<close>

theorem market_is_nationality:
  assumes "parse_xml_request fromstring l xml_input = Inr d"
  shows "\<exists>n j. d (py ''nationality'') = Some (StrV n)
    \<and> n \<in> {py ''US'', py ''GB'', py ''CA''}
    \<and> main fromstring l t k xml_input = Printed j
    \<and> offer_field (py ''market'') j = Some (JStr n)
    \<and> offer_field (py ''market'') j \<noteq> Some (JStr DEFAULT_MARKET)"
proof -
  from assms obtain c n j where c: "d (py ''currency'') = Some (StrV c)"
    and n: "d (py ''nationality'') = Some (StrV n)" "n \<in> VALID_NATIONALITIES"
    and j: "generate_json_response t k d = Inr j"
    and m: "main fromstring l t k xml_input = Printed j"
    by (rule main_success)
  have "offer_field (py ''market'') j = Some (JStr n)"
    using offer_field_market [OF j c] n(1) by (simp add: to_json_def)
  moreover have "n \<noteq> DEFAULT_MARKET"
    using n(2) by (auto simp add: const_defs)
  ultimately show ?thesis
    using n m by (auto simp add: VALID_NATIONALITIES_def)
qed

theorem market_is_nationality_witness:
  "parse_xml_request (reads_as sample_root) 4300 [] = Inr sample_parsed
    \<and> (\<exists>n j. sample_parsed (py ''nationality'') = Some (StrV n)
      \<and> n \<in> {py ''US'', py ''GB'', py ''CA''}
      \<and> main (reads_as sample_root) 4300 sample_time sample_code [] = Printed j
      \<and> offer_field (py ''market'') j = Some (JStr n)
      \<and> offer_field (py ''market'') j \<noteq> Some (JStr DEFAULT_MARKET))"
  using market_is_nationality
    [of "reads_as sample_root" 4300 "[]" sample_parsed sample_time sample_code]
  by (simp add: sample_parse)

text \<open>
  Claim C8: the printed \<open>exchange_rate\<close> is the entry of the table
  \<open>{EUR: 1.0, USD: 1.1, GBP: 0.9}\<close> for the currency of the record, so 0.9 for GBP, and
  1.0 for a currency that is not in the table; the currency of a record that the
  extractor returns is in the table.
\<close>

theorem exchange_rate_lookup:
  "(d (py ''currency'') = Some (StrV c) \<longrightarrow>
      (\<exists>j. generate_json_response t k d = Inr j
        \<and> price_field (py ''exchange_rate'') j =
            Some (JFloat
              (if c = py ''EUR'' then float_literal 10 1
               else if c = py ''USD'' then float_literal 11 1
               else if c = py ''GBP'' then float_literal 9 1
               else float_literal 10 1))))
   \<and> (parse_xml_request fromstring l xml_input = Inr d' \<longrightarrow>
      (\<exists>c' r j. d' (py ''currency'') = Some (StrV c')
        \<and> c' \<in> {py ''EUR'', py ''USD'', py ''GBP''}
        \<and> EXCHANGE_RATES c' = Some r
        \<and> generate_json_response t k d' = Inr j
        \<and> price_field (py ''exchange_rate'') j = Some (JFloat r)))"
proof (intro conjI impI)
  assume c: "d (py ''currency'') = Some (StrV c)"
  obtain j where j: "generate_json_response t k d = Inr j"
    using generate_json_response_Inr [where d = d and cur = "StrV c", OF c] by blast
  have "price_field (py ''exchange_rate'') j =
      Some (JFloat (case EXCHANGE_RATES c of Some r \<Rightarrow> r | None \<Rightarrow> float_literal 10 1))"
    using price_field_Inr(7) [OF j c] by simp
  then show "\<exists>j. generate_json_response t k d = Inr j
        \<and> price_field (py ''exchange_rate'') j =
            Some (JFloat
              (if c = py ''EUR'' then float_literal 10 1
               else if c = py ''USD'' then float_literal 11 1
               else if c = py ''GBP'' then float_literal 9 1
               else float_literal 10 1))"
    using j by (auto simp add: EXCHANGE_RATES_def)
next
  assume p: "parse_xml_request fromstring l xml_input = Inr d'"
  then obtain c' where c': "d' (py ''currency'') = Some (StrV c')" "c' \<in> VALID_CURRENCIES"
    by (rule parsed_currency)
  obtain j where j: "generate_json_response t k d' = Inr j"
    using generate_json_response_Inr [where d = d' and cur = "StrV c'", OF c'(1)] by blast
  obtain r where r: "EXCHANGE_RATES c' = Some r"
    using c'(2) by (auto simp add: VALID_CURRENCIES_def EXCHANGE_RATES_def)
  have "price_field (py ''exchange_rate'') j = Some (JFloat r)"
    using price_field_Inr(7) [OF j c'(1)] r by simp
  with c' j r show "\<exists>c' r j. d' (py ''currency'') = Some (StrV c')
        \<and> c' \<in> {py ''EUR'', py ''USD'', py ''GBP''}
        \<and> EXCHANGE_RATES c' = Some r
        \<and> generate_json_response t k d' = Inr j
        \<and> price_field (py ''exchange_rate'') j = Some (JFloat r)"
    by (auto simp add: VALID_CURRENCIES_def)
qed

theorem exchange_rate_lookup_witness:
  "(\<exists>j. generate_json_response sample_time sample_code
            [py ''currency'' \<mapsto> StrV (py ''GBP'')] = Inr j
      \<and> price_field (py ''exchange_rate'') j = Some (JFloat (float_literal 9 1)))
   \<and> parse_xml_request (reads_as sample_root) 4300 [] = Inr sample_parsed
   \<and> (\<exists>c' r j. sample_parsed (py ''currency'') = Some (StrV c')
        \<and> c' \<in> {py ''EUR'', py ''USD'', py ''GBP''}
        \<and> EXCHANGE_RATES c' = Some r
        \<and> generate_json_response sample_time sample_code sample_parsed = Inr j
        \<and> price_field (py ''exchange_rate'') j = Some (JFloat r))"
  using exchange_rate_lookup
    [of "[py ''currency'' \<mapsto> StrV (py ''GBP'')]" "py ''GBP''" sample_time sample_code
      "reads_as sample_root" 4300 "[]" sample_parsed]
  by (simp add: sample_parse)


subsection \<open>A request that needs every default\<close>

lemma defaulted_findtexts:
  "findtext defaulted_request languageCode_path dflt = Some (py ''it'')"
  "findtext defaulted_request optionsQuota_path dflt = dflt"
  "findtext defaulted_request SearchType_path dflt = Some []"
  "findtext defaulted_request StartDate_path dflt = dflt"
  "findtext defaulted_request EndDate_path dflt = dflt"
  "findtext defaulted_request Currency_path dflt = Some (py ''XYZ'')"
  "findtext defaulted_request Nationality_path dflt = dflt"
  by (simp_all add: defaulted_request_def find_defs path_defs)

lemma defaulted_SearchType:
  "find_el defaulted_request SearchType_path = Some (Element (py ''SearchType'') [] None [])"
  by (simp add: defaulted_request_def find_defs path_defs)

lemma defaulted_Parameter:
  "\<not> credentials_missing (find_el defaulted_request Parameter_path)"
  by (simp add: defaulted_request_def find_defs path_defs credentials_missing_def
      required_params_def credentials_def)

lemma defaulted_parse:
  "parse_xml_request (reads_as defaulted_request) l x = Inr defaulted_parsed"
  by (simp add: parse_xml_request_def reads_as_def defaulted_findtexts defaulted_Parameter
      defaulted_parsed_def valid_or_def const_defs text_val_def int_or_default_def)

lemma defaulted_parsed_fields:
  "defaulted_parsed (py ''currency'') = Some (StrV (py ''EUR''))"
  "defaulted_parsed (py ''nationality'') = Some (StrV (py ''US''))"
  "defaulted_parsed (py ''language'') = Some (StrV (py ''en''))"
  "defaulted_parsed (py ''options_quota'') = Some (IntV 20)"
  "defaulted_parsed (py ''search_type'') = Some (StrV [])"
  by (simp_all add: defaulted_parsed_def)

text \<open>
  Claim C6: when the language, the currency or the nationality of the input is absent
  or outside its allowed set (en, fr, de, es; EUR, USD, GBP; US, GB, CA), the normalized
  record that the extractor returns has the default of that field (en, EUR, US), and so
  has the printed document where it shows the field (\<open>currency\<close>, \<open>selling_currency\<close>,
  \<open>market\<close>). Every such field of the record and of the printed document is in its
  allowed set. The value of a field is the text of the first element on its path: none
  when there is no such element, the empty string when the element has no text.
\<close>

theorem enumerated_fields_defaulted:
  assumes "parse_xml_request fromstring l xml_input = Inr d"
    and "fromstring xml_input = Inr r"
  shows
    "((findtext r languageCode_path None = None
        \<or> (\<exists>v. findtext r languageCode_path None = Some v
              \<and> v \<notin> {py ''en'', py ''fr'', py ''de'', py ''es''}))
       \<longrightarrow> d (py ''language'') = Some (StrV (py ''en'')))
     \<and> ((findtext r Currency_path None = None
        \<or> (\<exists>v. findtext r Currency_path None = Some v
              \<and> v \<notin> {py ''EUR'', py ''USD'', py ''GBP''}))
       \<longrightarrow> d (py ''currency'') = Some (StrV (py ''EUR''))
         \<and> (\<exists>j. main fromstring l t k xml_input = Printed j
              \<and> price_field (py ''currency'') j = Some (JStr (py ''EUR''))
              \<and> price_field (py ''selling_currency'') j = Some (JStr (py ''EUR''))))
     \<and> ((findtext r Nationality_path None = None
        \<or> (\<exists>v. findtext r Nationality_path None = Some v
              \<and> v \<notin> {py ''US'', py ''GB'', py ''CA''}))
       \<longrightarrow> d (py ''nationality'') = Some (StrV (py ''US''))
         \<and> (\<exists>j. main fromstring l t k xml_input = Printed j
              \<and> offer_field (py ''market'') j = Some (JStr (py ''US''))))
     \<and> (\<exists>g c n j. d (py ''language'') = Some (StrV g)
           \<and> g \<in> {py ''en'', py ''fr'', py ''de'', py ''es''}
           \<and> d (py ''currency'') = Some (StrV c)
           \<and> c \<in> {py ''EUR'', py ''USD'', py ''GBP''}
           \<and> d (py ''nationality'') = Some (StrV n)
           \<and> n \<in> {py ''US'', py ''GB'', py ''CA''}
           \<and> main fromstring l t k xml_input = Printed j
           \<and> price_field (py ''currency'') j = Some (JStr c)
           \<and> price_field (py ''selling_currency'') j = Some (JStr c)
           \<and> offer_field (py ''market'') j = Some (JStr n))"
proof -
  from assms(1) obtain r' q where r': "fromstring xml_input = Inr r'"
    and q: "int_or_default l (findtext r' optionsQuota_path None) = Inr q"
    and cm: "\<not> credentials_missing (find_el r' Parameter_path)"
    by (rule parse_xml_request_InrE)
  from r' assms(2) have [simp]: "r' = r" by simp
  note rec = parse_xml_request_record [of fromstring xml_input r l q, OF assms(2)]
  have d: "d (py ''language'') = Some (StrV (valid_or VALID_LANGUAGES DEFAULT_LANGUAGE
              (findtext r languageCode_path None)))"
    "d (py ''currency'') = Some (StrV (valid_or VALID_CURRENCIES DEFAULT_CURRENCY
              (findtext r Currency_path None)))"
    "d (py ''nationality'') = Some (StrV (valid_or VALID_NATIONALITIES DEFAULT_NATIONALITY
              (findtext r Nationality_path None)))"
    using assms(1) rec q cm by (auto simp add: valid_or_findtext)
  from assms(1) obtain c n j where c: "d (py ''currency'') = Some (StrV c)"
    "c \<in> VALID_CURRENCIES"
    and n: "d (py ''nationality'') = Some (StrV n)" "n \<in> VALID_NATIONALITIES"
    and j: "generate_json_response t k d = Inr j"
    and m: "main fromstring l t k xml_input = Printed j"
    by (rule main_success)
  from assms(1) obtain g where g: "d (py ''language'') = Some (StrV g)" "g \<in> VALID_LANGUAGES"
    by (rule parsed_language)
  have out: "price_field (py ''currency'') j = Some (JStr c)"
    "price_field (py ''selling_currency'') j = Some (JStr c)"
    "offer_field (py ''market'') j = Some (JStr n)"
    using price_field_Inr(4,5) [OF j c(1)] offer_field_market [OF j c(1)] n(1)
    by (simp_all add: to_json_def)
  have lang: "findtext r languageCode_path None = None
        \<or> (\<exists>v. findtext r languageCode_path None = Some v
              \<and> v \<notin> {py ''en'', py ''fr'', py ''de'', py ''es''})
      \<Longrightarrow> d (py ''language'') = Some (StrV (py ''en''))"
    using d(1) valid_or_default [of "findtext r languageCode_path None" VALID_LANGUAGES
        DEFAULT_LANGUAGE]
    by (simp add: VALID_LANGUAGES_def DEFAULT_LANGUAGE_def)
  have cur: "findtext r Currency_path None = None
        \<or> (\<exists>v. findtext r Currency_path None = Some v
              \<and> v \<notin> {py ''EUR'', py ''USD'', py ''GBP''})
      \<Longrightarrow> c = py ''EUR''"
    using d(2) c(1) valid_or_default [of "findtext r Currency_path None" VALID_CURRENCIES
        DEFAULT_CURRENCY]
    by (simp add: VALID_CURRENCIES_def DEFAULT_CURRENCY_def)
  have nat: "findtext r Nationality_path None = None
        \<or> (\<exists>v. findtext r Nationality_path None = Some v
              \<and> v \<notin> {py ''US'', py ''GB'', py ''CA''})
      \<Longrightarrow> n = py ''US''"
    using d(3) n(1) valid_or_default [of "findtext r Nationality_path None"
        VALID_NATIONALITIES DEFAULT_NATIONALITY]
    by (simp add: VALID_NATIONALITIES_def DEFAULT_NATIONALITY_def)
  have all: "\<exists>g c n j. d (py ''language'') = Some (StrV g)
           \<and> g \<in> {py ''en'', py ''fr'', py ''de'', py ''es''}
           \<and> d (py ''currency'') = Some (StrV c)
           \<and> c \<in> {py ''EUR'', py ''USD'', py ''GBP''}
           \<and> d (py ''nationality'') = Some (StrV n)
           \<and> n \<in> {py ''US'', py ''GB'', py ''CA''}
           \<and> main fromstring l t k xml_input = Printed j
           \<and> price_field (py ''currency'') j = Some (JStr c)
           \<and> price_field (py ''selling_currency'') j = Some (JStr c)
           \<and> offer_field (py ''market'') j = Some (JStr n)"
    using g c n m out
    unfolding VALID_LANGUAGES_def VALID_CURRENCIES_def VALID_NATIONALITIES_def by blast
  show ?thesis
  proof (intro conjI impI)
    show "\<exists>g c n j. d (py ''language'') = Some (StrV g)
           \<and> g \<in> {py ''en'', py ''fr'', py ''de'', py ''es''}
           \<and> d (py ''currency'') = Some (StrV c)
           \<and> c \<in> {py ''EUR'', py ''USD'', py ''GBP''}
           \<and> d (py ''nationality'') = Some (StrV n)
           \<and> n \<in> {py ''US'', py ''GB'', py ''CA''}
           \<and> main fromstring l t k xml_input = Printed j
           \<and> price_field (py ''currency'') j = Some (JStr c)
           \<and> price_field (py ''selling_currency'') j = Some (JStr c)
           \<and> offer_field (py ''market'') j = Some (JStr n)"
      by (rule all)
  qed (use lang cur nat c n m out in auto)
qed

theorem enumerated_fields_defaulted_witness:
  "parse_xml_request (reads_as defaulted_request) 4300 [] = Inr defaulted_parsed
    \<and> reads_as defaulted_request [] = Inr defaulted_request
    \<and> findtext defaulted_request languageCode_path None = Some (py ''it'')
    \<and> findtext defaulted_request Currency_path None = Some (py ''XYZ'')
    \<and> findtext defaulted_request Nationality_path None = None
    \<and> defaulted_parsed (py ''language'') = Some (StrV (py ''en''))
    \<and> defaulted_parsed (py ''currency'') = Some (StrV (py ''EUR''))
    \<and> (\<exists>j. main (reads_as defaulted_request) 4300 sample_time sample_code [] = Printed j
          \<and> price_field (py ''currency'') j = Some (JStr (py ''EUR''))
          \<and> price_field (py ''selling_currency'') j = Some (JStr (py ''EUR'')))
    \<and> defaulted_parsed (py ''nationality'') = Some (StrV (py ''US''))
    \<and> (\<exists>j. main (reads_as defaulted_request) 4300 sample_time sample_code [] = Printed j
          \<and> offer_field (py ''market'') j = Some (JStr (py ''US'')))"
  using enumerated_fields_defaulted
    [of "reads_as defaulted_request" 4300 "[]" defaulted_parsed defaulted_request
      sample_time sample_code]
  by (simp add: defaulted_parse defaulted_findtexts reads_as_def)

text \<open>
  Claim C10: when the first \<open>SearchType\<close> element of the input has no text, the
  normalized \<open>search_type\<close> is the empty string and not \<open>Single\<close>; an element with text
  gives that text; \<open>Single\<close> is what the record holds when there is no such element.
\<close>

theorem search_type_of_empty_element:
  assumes "parse_xml_request fromstring l xml_input = Inr d"
    and "fromstring xml_input = Inr r"
  shows
    "(\<forall>e. find_el r SearchType_path = Some e \<and> etext e = None
         \<longrightarrow> d (py ''search_type'') = Some (StrV []))
     \<and> (\<forall>e s. find_el r SearchType_path = Some e \<and> etext e = Some s
         \<longrightarrow> d (py ''search_type'') = Some (StrV s))
     \<and> (find_el r SearchType_path = None
         \<longrightarrow> d (py ''search_type'') = Some (StrV (py ''Single'')))
     \<and> py ''Single'' \<noteq> []"
proof -
  from assms(1) obtain r' q where r': "fromstring xml_input = Inr r'"
    and q: "int_or_default l (findtext r' optionsQuota_path None) = Inr q"
    and cm: "\<not> credentials_missing (find_el r' Parameter_path)"
    by (rule parse_xml_request_InrE)
  from r' assms(2) have [simp]: "r' = r" by simp
  note rec = parse_xml_request_record [of fromstring xml_input r l q, OF assms(2)]
  have "d (py ''search_type'') =
      Some (text_val (findtext r SearchType_path (Some (py ''Single''))))"
    using assms(1) rec q cm by auto
  then show ?thesis
    by (auto simp add: findtext_def text_val_def py_def)
qed

theorem search_type_of_empty_element_witness:
  "parse_xml_request (reads_as defaulted_request) 4300 [] = Inr defaulted_parsed
    \<and> find_el defaulted_request SearchType_path = Some (Element (py ''SearchType'') [] None [])
    \<and> defaulted_parsed (py ''search_type'') = Some (StrV [])
    \<and> defaulted_parsed (py ''search_type'') \<noteq> Some (StrV (py ''Single''))"
  using search_type_of_empty_element
    [of "reads_as defaulted_request" 4300 "[]" defaulted_parsed defaulted_request]
  by (simp add: defaulted_parse defaulted_SearchType reads_as_def)


subsection \<open>Decimal digits\<close>

lemma ascii_digit:
  assumes "48 \<le> c" and "c \<le> 57"
  shows "decimal c = Some (c - 48)" and "isdecimal_char c" and "isdigit_char c"
  using assms by (simp_all add: isdigit_char_def isdecimal_char_def decimal_def decimal_ranges_def)

lemma str_nat_digits: "list_all (\<lambda>c. 48 \<le> c \<and> c \<le> 57) (str_nat n)"
proof (induction n rule: str_nat.induct)
  case (1 n)
  show ?case
  proof (cases "n < 10")
    case True
    then show ?thesis by (subst str_nat.simps) simp
  next
    case False
    have "n mod 10 < 10" by simp
    then have "48 + n mod 10 \<le> 57" by linarith
    with False 1 show ?thesis by (subst str_nat.simps) simp
  qed
qed

lemma str_nat_not_Nil: "str_nat n \<noteq> []"
  by (subst str_nat.simps) simp

lemma digits_value_snoc: "digits_value (s @ [c]) = 10 * digits_value s + the (decimal c)"
  by (simp add: digits_value_def)

lemma digits_value_str_nat: "digits_value (str_nat n) = n"
proof (induction n rule: str_nat.induct)
  case (1 n)
  show ?case
  proof (cases "n < 10")
    case True
    then show ?thesis
      by (subst str_nat.simps) (simp add: digits_value_def ascii_digit)
  next
    case False
    have "n mod 10 < 10" by simp
    then have "48 + n mod 10 \<le> 57" by linarith
    then have "decimal (48 + n mod 10) = Some (n mod 10)"
      using ascii_digit(1) [of "48 + n mod 10"] by simp
    with False 1 show ?thesis
      by (subst str_nat.simps) (simp add: digits_value_snoc)
  qed
qed

lemma length_str_nat: "n < 100 \<Longrightarrow> length (str_nat n) \<le> 2"
proof -
  assume "n < 100"
  then have "n div 10 < 10" by arith
  then show ?thesis
    by (subst str_nat.simps, subst str_nat.simps) simp
qed

lemma str_nat_all_decimal: "list_all isdecimal_char (str_nat n)"
  using str_nat_digits [of n] by (simp add: list_all_iff ascii_digit)

lemma str_nat_isdigit: "isdigit (str_nat n)"
  using str_nat_digits [of n] by (simp add: isdigit_def str_nat_not_Nil list_all_iff ascii_digit)

lemma py_int_str_nat: "n < 100 \<Longrightarrow> py_int l (str_nat n) = Inr (int n)"
proof -
  assume "n < 100"
  then have "length (str_nat n) \<le> 2" by (rule length_str_nat)
  moreover have tw: "takeWhile isdecimal_char (str_nat n) = str_nat n"
    using str_nat_all_decimal [of n] by (simp add: list_all_iff)
  ultimately show ?thesis
    by (simp add: py_int_def tw str_nat_not_Nil str_nat_all_decimal digits_value_str_nat)
qed

text \<open>The quota as a text is read back as the same quota.\<close>

lemma int_or_default_str_int:
  assumes "0 \<le> q" and "q \<le> 50"
  shows "int_or_default l (Some (str_int q)) = Inr q"
proof -
  from assms have "nat q < 100" by simp
  then have "py_int l (str_nat (nat q)) = Inr (int (nat q))" by (rule py_int_str_nat)
  with assms show ?thesis
    by (simp add: int_or_default_def str_int_def str_nat_not_Nil str_nat_isdigit)
qed

lemma py_int_nonneg: "py_int l s = Inr q \<Longrightarrow> 0 \<le> q"
  by (auto simp add: py_int_def Let_def split: if_splits)

lemma int_or_default_nonneg: "int_or_default l x = Inr q \<Longrightarrow> 0 \<le> q"
  by (auto simp add: int_or_default_def DEFAULT_OPTIONS_QUOTA_def
      split: option.splits if_splits dest: py_int_nonneg)

subsection \<open>Extracting from a normalized document\<close>

lemma normalized_findtexts:
  assumes "d (py ''language'') = Some (StrV g)"
    and "d (py ''options_quota'') = Some (IntV q)"
    and "d (py ''search_type'') = Some (StrV s)"
    and "d (py ''start_date'') = Some (text_val sd)"
    and "d (py ''end_date'') = Some (text_val ed)"
    and "d (py ''currency'') = Some (StrV c)"
    and "d (py ''nationality'') = Some (StrV n)"
  shows "findtext (normalized_document d) languageCode_path dflt = Some g"
    and "findtext (normalized_document d) optionsQuota_path dflt = Some (str_int q)"
    and "findtext (normalized_document d) SearchType_path dflt = Some s"
    and "findtext (normalized_document d) StartDate_path None = sd"
    and "findtext (normalized_document d) EndDate_path None = ed"
    and "findtext (normalized_document d) Currency_path dflt = Some c"
    and "findtext (normalized_document d) Nationality_path dflt = Some n"
    and "\<not> credentials_missing (find_el (normalized_document d) Parameter_path)"
  using assms
  by (cases sd; cases ed;
      simp add: normalized_document_def text_element_def text_val_def find_defs path_defs
        credentials_missing_def required_params_def credentials_def)+

lemma reparse:
  assumes "g \<in> VALID_LANGUAGES" and "c \<in> VALID_CURRENCIES" and "n \<in> VALID_NATIONALITIES"
    and "0 \<le> q" and "q \<le> 50"
    and "d = [py ''language'' \<mapsto> StrV g,
              py ''options_quota'' \<mapsto> IntV q,
              py ''search_type'' \<mapsto> StrV s,
              py ''start_date'' \<mapsto> text_val sd,
              py ''end_date'' \<mapsto> text_val ed,
              py ''currency'' \<mapsto> StrV c,
              py ''nationality'' \<mapsto> StrV n]"
  shows "parse_xml_request (reads_as (normalized_document d)) l x = Inr d"
proof -
  have f: "d (py ''language'') = Some (StrV g)"
    "d (py ''options_quota'') = Some (IntV q)"
    "d (py ''search_type'') = Some (StrV s)"
    "d (py ''start_date'') = Some (text_val sd)"
    "d (py ''end_date'') = Some (text_val ed)"
    "d (py ''currency'') = Some (StrV c)"
    "d (py ''nationality'') = Some (StrV n)"
    by (simp_all add: assms(6))
  note ft = normalized_findtexts [OF f]
  have "parse_xml_request (reads_as (normalized_document d)) l x =
      Inr [py ''language'' \<mapsto> StrV g,
           py ''options_quota'' \<mapsto> IntV q,
           py ''search_type'' \<mapsto> StrV s,
           py ''start_date'' \<mapsto> text_val sd,
           py ''end_date'' \<mapsto> text_val ed,
           py ''currency'' \<mapsto> StrV c,
           py ''nationality'' \<mapsto> StrV n]"
    using assms(1-5)
    by (simp add: parse_xml_request_def reads_as_def ft int_or_default_str_int
        valid_or_def text_val_def MAX_OPTIONS_QUOTA_def)
  then show ?thesis by (simp add: assms(6))
qed

text \<open>
  Claim C9: extraction is idempotent. When the extractor returns a record for an
  input, it returns the same record for a document that carries the values of that
  record; and each normalizer maps its own results to themselves.
\<close>

theorem normalization_is_idempotent:
  assumes "parse_xml_request fromstring l xml_input = Inr d"
  shows "parse_xml_request (reads_as (normalized_document d)) l' xml_input' = Inr d
    \<and> (\<forall>x. valid_or VALID_LANGUAGES DEFAULT_LANGUAGE
              (Some (valid_or VALID_LANGUAGES DEFAULT_LANGUAGE x))
            = valid_or VALID_LANGUAGES DEFAULT_LANGUAGE x)
    \<and> (\<forall>x. valid_or VALID_CURRENCIES DEFAULT_CURRENCY
              (Some (valid_or VALID_CURRENCIES DEFAULT_CURRENCY x))
            = valid_or VALID_CURRENCIES DEFAULT_CURRENCY x)
    \<and> (\<forall>x. valid_or VALID_NATIONALITIES DEFAULT_NATIONALITY
              (Some (valid_or VALID_NATIONALITIES DEFAULT_NATIONALITY x))
            = valid_or VALID_NATIONALITIES DEFAULT_NATIONALITY x)
    \<and> (\<forall>x q. int_or_default l x = Inr q \<longrightarrow>
          int_or_default l' (Some (str_int (min q MAX_OPTIONS_QUOTA)))
            = Inr (min q MAX_OPTIONS_QUOTA)
          \<and> min (min q MAX_OPTIONS_QUOTA) MAX_OPTIONS_QUOTA = min q MAX_OPTIONS_QUOTA)"
proof -
  from assms obtain r q where r: "fromstring xml_input = Inr r"
    and q: "int_or_default l (findtext r optionsQuota_path None) = Inr q"
    and cm: "\<not> credentials_missing (find_el r Parameter_path)"
    by (rule parse_xml_request_InrE)
  have d: "d = [py ''language'' \<mapsto>
             StrV (valid_or VALID_LANGUAGES DEFAULT_LANGUAGE
                    (findtext r languageCode_path (Some DEFAULT_LANGUAGE))),
           py ''options_quota'' \<mapsto> IntV (min q MAX_OPTIONS_QUOTA),
           py ''search_type'' \<mapsto>
             StrV (case findtext r SearchType_path None of
                     None \<Rightarrow> py ''Single'' | Some t \<Rightarrow> t),
           py ''start_date'' \<mapsto> text_val (findtext r StartDate_path None),
           py ''end_date'' \<mapsto> text_val (findtext r EndDate_path None),
           py ''currency'' \<mapsto>
             StrV (valid_or VALID_CURRENCIES DEFAULT_CURRENCY
                    (findtext r Currency_path (Some DEFAULT_CURRENCY))),
           py ''nationality'' \<mapsto>
             StrV (valid_or VALID_NATIONALITIES DEFAULT_NATIONALITY
                    (findtext r Nationality_path (Some DEFAULT_NATIONALITY)))]"
    using assms parse_xml_request_record [of fromstring xml_input r l q, OF r q cm]
    by (simp add: findtext_Some [of r SearchType_path] text_val_def)
  have "0 \<le> q" using q by (rule int_or_default_nonneg)
  then have q': "0 \<le> min q MAX_OPTIONS_QUOTA" "min q MAX_OPTIONS_QUOTA \<le> 50"
    by (simp_all add: MAX_OPTIONS_QUOTA_def)
  have first: "parse_xml_request (reads_as (normalized_document d)) l' xml_input' = Inr d"
    by (rule reparse [OF _ _ _ q' d]; rule valid_or_in; simp add: const_defs)
  have quota: "int_or_default l' (Some (str_int (min q MAX_OPTIONS_QUOTA)))
            = Inr (min q MAX_OPTIONS_QUOTA)" if "int_or_default l x = Inr q" for x q
  proof -
    from that have "0 \<le> q" by (rule int_or_default_nonneg)
    then show ?thesis
      by (intro int_or_default_str_int) (simp_all add: MAX_OPTIONS_QUOTA_def)
  qed
  have enum: "valid_or V dflt (Some (valid_or V dflt x)) = valid_or V dflt x"
    if "dflt \<in> V" for V :: "pystr set" and dflt x
    using that by (simp add: valid_or_def split: option.splits)
  show ?thesis
    using first quota by (simp add: enum const_defs)
qed

theorem normalization_is_idempotent_witness:
  "parse_xml_request (reads_as defaulted_request) 4300 [] = Inr defaulted_parsed
    \<and> parse_xml_request (reads_as (normalized_document defaulted_parsed)) 4300 []
        = Inr defaulted_parsed"
  using normalization_is_idempotent
    [of "reads_as defaulted_request" 4300 "[]" defaulted_parsed 4300 "[]"]
  by (simp add: defaulted_parse)


subsection \<open>What the extractor guarantees about the quota and the credentials\<close>

lemma py_int_Inl: "py_int l s = Inl e \<Longrightarrow> \<exists>msg. e = ValueError msg"
  by (auto simp add: py_int_def Let_def split: if_splits)

lemma int_or_default_Inl:
  "int_or_default l x = Inl e \<Longrightarrow> \<exists>s msg. x = Some s \<and> isdigit s \<and> e = ValueError msg"
  by (auto simp add: int_or_default_def split: option.splits if_splits dest: py_int_Inl)

lemma int_or_default_absent_or_not_digits:
  "x = None \<or> (\<exists>s. x = Some s \<and> \<not> isdigit s) \<Longrightarrow> int_or_default l x = Inr 20"
  by (auto simp add: int_or_default_def DEFAULT_OPTIONS_QUOTA_def)

lemma int_or_default_decimal:
  assumes "s \<noteq> []" and "list_all isdecimal_char s"
    and "length s \<le> 640 \<or> l = 0 \<or> length s \<le> l"
  shows "int_or_default l (Some s) = Inr (int (digits_value s))"
proof -
  have tw: "takeWhile isdecimal_char s = s"
    using assms(2) by (simp add: list_all_iff)
  have "isdigit s"
    using assms(1,2) by (simp add: isdigit_def isdigit_char_def list_all_iff)
  then show ?thesis
    using assms by (auto simp add: int_or_default_def py_int_def tw)
qed

lemma quota_in_record:
  assumes "parse_xml_request fromstring l xml_string = Inr d"
  obtains q where "d (py ''options_quota'') = Some (IntV q)" and "0 \<le> q"
    and "q \<le> MAX_OPTIONS_QUOTA"
proof -
  from assms obtain r q where r: "fromstring xml_string = Inr r"
    and q: "int_or_default l (findtext r optionsQuota_path None) = Inr q"
    and c: "\<not> credentials_missing (find_el r Parameter_path)"
    by (rule parse_xml_request_InrE)
  have "d (py ''options_quota'') = Some (IntV (min q MAX_OPTIONS_QUOTA))"
    using assms parse_xml_request_record [of fromstring xml_string r l q, OF r q c] by auto
  moreover have "0 \<le> min q MAX_OPTIONS_QUOTA"
    using int_or_default_nonneg [OF q] by (simp add: MAX_OPTIONS_QUOTA_def)
  ultimately show ?thesis using that by simp
qed

text \<open>Without the credentials no offer is printed: the run prints an error document.\<close>

lemma missing_credentials_error:
  assumes "fromstring xml_input = Inr r"
    and "credentials_missing (find_el r Parameter_path)"
  shows "\<exists>msg. main fromstring l t k xml_input = Printed (JDict [(py ''error'', JStr msg)])
    \<and> (\<forall>q. int_or_default l (findtext r optionsQuota_path None) = Inr q
          \<longrightarrow> msg = missing_message)"
proof (cases "int_or_default l (findtext r optionsQuota_path None)")
  case (Inl e)
  then obtain msg where "e = ValueError msg"
    using int_or_default_Inl by blast
  with Inl assms(1) show ?thesis
    by (simp add: main_def except_ValueError_def
        parse_xml_request_quota_error [of fromstring xml_input r l])
next
  case (Inr q)
  with assms show ?thesis
    by (simp add: main_def except_ValueError_def
        parse_xml_request_missing [of fromstring xml_input r l q])
qed

subsection \<open>A quota written with digits that are not decimal\<close>

lemma superscript_two: "isdigit [178]" "\<not> list_all isdecimal_char [178]"
  by (simp_all add: unicode_defs)

lemma circled_one: "isdigit [9312]" "\<not> list_all isdecimal_char [9312]"
  by (simp_all add: unicode_defs)

lemma quota_request_findtext:
  "findtext (quota_request creds quota) optionsQuota_path dflt = Some quota"
  by (simp add: quota_request_def find_defs path_defs)

lemma quota_request_Parameter:
  "find_el (quota_request creds quota) Parameter_path
    = Some (Element (py ''Parameter'') creds None [])"
  by (simp add: quota_request_def find_defs path_defs)

lemma invalid_literal:
  "isdigit s \<Longrightarrow> \<not> list_all isdecimal_char s \<Longrightarrow> length s \<le> 640 \<Longrightarrow>
    int_or_default l (Some s)
      = Inl (ValueError (py ''invalid literal for int() with base 10: ''
          @ take 200 ([39] @ s @ [39])))"
proof -
  assume a: "isdigit s" "\<not> list_all isdecimal_char s" "length s \<le> 640"
  have "length (takeWhile isdecimal_char s) \<le> length s"
    by (rule length_takeWhile_le)
  with a(3) have "\<not> 640 < length (takeWhile isdecimal_char s)" by simp
  with a(1,2) show ?thesis
    by (simp add: int_or_default_def py_int_def Let_def isdigit_def)
qed

text \<open>
  Claim C3 says that every well-formed document without the credential element, or
  without one of its three attributes, yields the error document that names the missing
  parameters. The program converts the quota before it looks at the credentials, and
  \<open>str.isdigit\<close> lets through digits that \<open>int\<close> refuses: on a request without credentials
  whose quota is a superscript two, the error document printed is that of \<open>int\<close>.
\<close>

theorem missing_credentials_other_error:
  "credentials_missing (find_el (quota_request [] [178]) Parameter_path)
    \<and> main (reads_as (quota_request [] [178])) 4300 sample_time sample_code []
        = Printed (JDict [(py ''error'',
            JStr (py ''invalid literal for int() with base 10: '' @ [39, 178, 39]))])
    \<and> py ''invalid literal for int() with base 10: '' @ [39, 178, 39] \<noteq> missing_message"
proof -
  have "parse_xml_request (reads_as (quota_request [] [178])) 4300 []
      = Inl (ValueError (py ''invalid literal for int() with base 10: '' @ [39, 178, 39]))"
    using invalid_literal [of "[178]" 4300] superscript_two
    by (simp add: parse_xml_request_def reads_as_def quota_request_findtext)
  moreover have "credentials_missing (find_el (quota_request [] [178]) Parameter_path)"
    by (simp add: quota_request_Parameter credentials_missing_def required_params_def)
  moreover have "py ''invalid literal for int() with base 10: '' @ [39, 178, 39]
      \<noteq> missing_message"
    by (simp add: missing_message_def py_def)
  ultimately show ?thesis
    by (simp add: main_def except_ValueError_def)
qed

text \<open>
  Claim C4 says that a quota text that is absent or not a number gives the default 20,
  that one above 50 gives 50, and that no record holds more than 50. The middle part
  fails on the program for a text of digits that are not decimal: a circled digit one
  passes \<open>str.isdigit\<close>, \<open>int\<close> raises on it, and there is no record at all.
\<close>

theorem quota_of_circled_digit:
  "isdigit [9312]
    \<and> int_or_default 4300 (Some [9312])
        = Inl (ValueError (py ''invalid literal for int() with base 10: '' @ [39, 9312, 39]))
    \<and> parse_xml_request (reads_as (quota_request credentials [9312])) 4300 []
        = Inl (ValueError (py ''invalid literal for int() with base 10: '' @ [39, 9312, 39]))"
  using invalid_literal [of "[9312]" 4300] circled_one
  by (simp add: parse_xml_request_def reads_as_def quota_request_findtext)

text \<open>
  Claim C5 says that extraction succeeds on every well-formed document that has the
  credentials, and fails for malformed markup or missing credentials only. On a request
  with all three credentials whose quota is a superscript two the program raises the
  \<open>ValueError\<close> of \<open>int\<close> and returns no record.
\<close>

theorem extraction_fails_with_credentials:
  "\<not> credentials_missing (find_el (quota_request credentials [178]) Parameter_path)
    \<and> parse_xml_request (reads_as (quota_request credentials [178])) 4300 []
        = Inl (ValueError (py ''invalid literal for int() with base 10: '' @ [39, 178, 39]))
    \<and> main (reads_as (quota_request credentials [178])) 4300 sample_time sample_code []
        = Printed (JDict [(py ''error'',
            JStr (py ''invalid literal for int() with base 10: '' @ [39, 178, 39]))])"
proof -
  have p: "parse_xml_request (reads_as (quota_request credentials [178])) 4300 []
      = Inl (ValueError (py ''invalid literal for int() with base 10: '' @ [39, 178, 39]))"
    using invalid_literal [of "[178]" 4300] superscript_two
    by (simp add: parse_xml_request_def reads_as_def quota_request_findtext)
  have "\<not> credentials_missing (find_el (quota_request credentials [178]) Parameter_path)"
    by (simp add: quota_request_Parameter credentials_missing_def required_params_def
        credentials_def)
  with p show ?thesis
    by (simp add: main_def except_ValueError_def)
qed


end
